theory Spec2Isabelle
  imports Main "HOL-Library.Sublist"
begin

section \<open>Python values used by backup.py\<close>

text \<open>
  A Python \<^verbatim>\<open>str\<close> is a sequence of Unicode code points, so it is modelled as a list of
  natural numbers (not as a list of 8-bit characters). \<open>py\<close> embeds an ASCII literal.
\<close>

type_synonym str = "nat list"

definition py :: "string \<Rightarrow> str" where
  "py s = map of_char s"

text \<open>
  The exceptions that occur in the program. \<open>KeyboardInterrupt\<close> and \<open>SystemExit\<close> derive
  from \<^verbatim>\<open>BaseException\<close> only; every other one is a subclass of \<^verbatim>\<open>Exception\<close>.
  \<open>Empty\<close> is \<^verbatim>\<open>queue.Empty\<close>; \<open>ApiError\<close> stands for the errors of the Dropbox client.
\<close>

datatype exn =
    AttributeError | TypeError | ValueError | OverflowError
  | Empty
  | OSError | FileNotFoundError | PermissionError | FileExistsError
  | ApiError
  | KeyboardInterrupt | SystemExit

definition is_Exception :: "exn \<Rightarrow> bool" where
  "is_Exception e = (e \<noteq> KeyboardInterrupt \<and> e \<noteq> SystemExit)"

text \<open>
  Plain Python objects: \<^verbatim>\<open>None\<close>, integers, strings and objects that carry a finite set of
  data attributes. Attribute access on an object that lacks the attribute raises
  \<^verbatim>\<open>AttributeError\<close>, as it does on \<^verbatim>\<open>None\<close>, an \<^verbatim>\<open>int\<close> or a \<^verbatim>\<open>str\<close> for the attribute
  names used here.
\<close>

datatype pyobj =
    PyNone
  | PyInt int
  | PyStr str
  | PyObject "(string \<times> pyobj) list"

fun getattr :: "pyobj \<Rightarrow> string \<Rightarrow> exn + pyobj" where
  "getattr (PyObject attrs) name =
     (case map_of attrs name of None \<Rightarrow> Inl AttributeError | Some v \<Rightarrow> Inr v)"
| "getattr _ name = Inl AttributeError"

text \<open>\<^verbatim>\<open>s == v\<close> for a string \<open>s\<close>: true exactly when \<open>v\<close> is a string with the same code points.\<close>

fun str_eq :: "str \<Rightarrow> pyobj \<Rightarrow> bool" where
  "str_eq s (PyStr t) = (s = t)"
| "str_eq s _ = False"

section \<open>Dropbox data\<close>

text \<open>
  An entry of a folder listing. \<open>FileMetadata id path_display size server_modified\<close> has the
  attributes of a file; \<open>FolderMetadata id path_display\<close> has neither \<^verbatim>\<open>size\<close> nor
  \<^verbatim>\<open>server_modified\<close>, and reading them raises \<^verbatim>\<open>AttributeError\<close>. A \<^verbatim>\<open>datetime\<close> is
  modelled by its position on the time line (an integer number of microseconds).
\<close>

datatype Metadata =
    FileMetadata str str int int
  | FolderMetadata str str

fun id' :: "Metadata \<Rightarrow> str" where
  "id' (FileMetadata i p s t) = i"
| "id' (FolderMetadata i p) = i"

fun path_display :: "Metadata \<Rightarrow> str" where
  "path_display (FileMetadata i p s t) = p"
| "path_display (FolderMetadata i p) = p"

fun size' :: "Metadata \<Rightarrow> exn + int" where
  "size' (FileMetadata i p s t) = Inr s"
| "size' (FolderMetadata i p) = Inl AttributeError"

fun server_modified :: "Metadata \<Rightarrow> exn + int" where
  "server_modified (FileMetadata i p s t) = Inr t"
| "server_modified (FolderMetadata i p) = Inl AttributeError"

record TeamMemberProfile =
  team_member_id :: str
  display_name :: str

record TeamMemberInfo =
  profile :: TeamMemberProfile

text \<open>The pages returned by the two paginated listing calls.\<close>

record ListResult =
  has_more :: bool
  cursor :: str

record MembersListResult = ListResult +
  members :: "TeamMemberInfo list"

record ListFolderResult = ListResult +
  entries :: "Metadata list"

text \<open>
  The attributes \<^verbatim>\<open>file\<close> and \<^verbatim>\<open>member\<close> of class \<open>File\<close> are the fields \<open>file'\<close> and
  \<open>member'\<close>, and \<open>id'\<close> and \<open>size'\<close> above are the attributes \<^verbatim>\<open>id\<close> and \<^verbatim>\<open>size\<close> of an
  entry.
\<close>

record File =
  file' :: Metadata
  member' :: TeamMemberInfo

text \<open>
  The remote service, as far as the program calls it. The two folder calls take the
  team member id given to \<^verbatim>\<open>team.as_user\<close> first. \<open>files_download_to_file team file local_path\<close>
  is the outcome of the two statements of the download step of \<^verbatim>\<open>save_file\<close>
  (\<^verbatim>\<open>team.as_user(file.member.member_id)\<close> and \<^verbatim>\<open>user.files_download_to_file(local_path,
  file.file.path_display)\<close>): \<open>None\<close> when they succeed, the exception when one is raised.
\<close>

record DropboxTeam =
  team_members_list :: MembersListResult
  team_members_list_continue :: "str \<Rightarrow> MembersListResult"
  files_list_folder :: "str \<Rightarrow> str \<Rightarrow> ListFolderResult"
  files_list_folder_continue :: "str \<Rightarrow> str \<Rightarrow> ListFolderResult"
  files_download_to_file :: "File \<Rightarrow> str \<Rightarrow> exn option"

text \<open>The parsed command line (\<^verbatim>\<open>argparse.Namespace\<close>), as far as the program reads it.\<close>

record Namespace =
  args_since :: "int option"
  args_maxsize :: int
  args_out :: str
  args_limit :: "int option"

section \<open>class File\<close>

text \<open>A \<open>File\<close> seen as a plain object, for the right-hand side of \<^verbatim>\<open>==\<close>.\<close>

definition Metadata_obj :: "Metadata \<Rightarrow> pyobj" where
  "Metadata_obj m =
     (case m of
        FileMetadata i p s t \<Rightarrow>
          PyObject [(''id'', PyStr i), (''path_display'', PyStr p), (''size'', PyInt s),
                    (''server_modified'', PyInt t)]
      | FolderMetadata i p \<Rightarrow>
          PyObject [(''id'', PyStr i), (''path_display'', PyStr p)])"

definition TeamMemberInfo_obj :: "TeamMemberInfo \<Rightarrow> pyobj" where
  "TeamMemberInfo_obj m =
     PyObject [(''profile'',
       PyObject [(''team_member_id'', PyStr (team_member_id (profile m))),
                 (''name'', PyObject [(''display_name'', PyStr (display_name (profile m)))])])]"

definition File_obj :: "File \<Rightarrow> pyobj" where
  "File_obj f = PyObject [(''file'', Metadata_obj (file' f)), (''member'', TeamMemberInfo_obj (member' f))]"

text \<open>
  \<^verbatim>\<open>File.__hash__\<close>: the hash of the file id. Python's string hash is a parameter \<open>h\<close>
  (it differs from process to process).
\<close>

definition File_hash :: "(str \<Rightarrow> int) \<Rightarrow> File \<Rightarrow> int" where
  "File_hash h self = h (id' (file' self))"

text \<open>
  \<^verbatim>\<open>File.__eq__\<close>: the body of the \<^verbatim>\<open>try\<close>, then the handler, which catches
  \<^verbatim>\<open>AttributeError\<close> only.
\<close>

definition File_eq_try :: "File \<Rightarrow> pyobj \<Rightarrow> exn + bool" where
  "File_eq_try self other =
     (case getattr other ''file'' of
        Inl e \<Rightarrow> Inl e
      | Inr other_file \<Rightarrow>
          (case getattr other_file ''id'' of
             Inl e \<Rightarrow> Inl e
           | Inr other_id \<Rightarrow> Inr (str_eq (id' (file' self)) other_id)))"

definition File_eq :: "File \<Rightarrow> pyobj \<Rightarrow> exn + bool" where
  "File_eq self other =
     (case File_eq_try self other of
        Inl e \<Rightarrow> (if e = AttributeError then Inr False else Inl e)
      | Inr b \<Rightarrow> Inr b)"

section \<open>class SetQueue\<close>

text \<open>
  The fields of \<^verbatim>\<open>queue.Queue\<close> that the single-threaded program can observe, and the
  \<open>all_items\<close> set that \<open>SetQueue\<close> adds. \<open>maxsize = 0\<close> is the unbounded queue.
\<close>

record SetQueue =
  maxsize :: nat
  queue :: "File list"
  all_items :: "File set"
  unfinished_tasks :: nat

definition SetQueue_init :: "nat \<Rightarrow> SetQueue" where
  "SetQueue_init n = \<lparr>maxsize = n, queue = [], all_items = {}, unfinished_tasks = 0\<rparr>"

text \<open>
  \<^verbatim>\<open>item in self.all_items\<close>: a Python set finds the stored elements with the hash of
  \<open>item\<close> and compares them with \<^verbatim>\<open>==\<close>.
\<close>

definition set_contains :: "(str \<Rightarrow> int) \<Rightarrow> File set \<Rightarrow> File \<Rightarrow> bool" where
  "set_contains h S item =
     (\<exists>y\<in>S. File_hash h y = File_hash h item \<and> File_eq y (File_obj item) = Inr True)"

text \<open>\<^verbatim>\<open>SetQueue._put\<close>; \<^verbatim>\<open>super()._put\<close> appends to the deque.\<close>

definition SetQueue_put' :: "(str \<Rightarrow> int) \<Rightarrow> SetQueue \<Rightarrow> File \<Rightarrow> SetQueue" where
  "SetQueue_put' h q item =
     (if \<not> set_contains h (all_items q) item
      then q\<lparr>queue := queue q @ [item], all_items := insert item (all_items q)\<rparr>
      else q)"

text \<open>
  \<^verbatim>\<open>Queue.put(item)\<close> with its defaults \<^verbatim>\<open>block=True, timeout=None\<close>: on a full bounded
  queue it waits for a consumer; the program has one thread, so it waits forever (\<open>None\<close>).
  Otherwise it calls \<^verbatim>\<open>_put\<close> and counts the task.
\<close>

definition Queue_put :: "(str \<Rightarrow> int) \<Rightarrow> SetQueue \<Rightarrow> File \<Rightarrow> SetQueue option" where
  "Queue_put h q item =
     (if 0 < maxsize q \<and> maxsize q \<le> length (queue q) then None
      else Some ((SetQueue_put' h q item)\<lparr>unfinished_tasks := unfinished_tasks q + 1\<rparr>))"

text \<open>
  \<^verbatim>\<open>Queue.get(block, timeout)\<close> of the standard library. The result is \<open>None\<close> when the call
  never returns: with \<^verbatim>\<open>block=True\<close> and \<^verbatim>\<open>timeout=None\<close> an empty queue waits on a condition
  that only another thread could signal. \<^verbatim>\<open>queue.Empty\<close> is raised by a non-blocking call,
  or when a timeout runs out.
\<close>

definition Queue_get :: "SetQueue \<Rightarrow> bool \<Rightarrow> int option \<Rightarrow> (exn + File \<times> SetQueue) option" where
  "Queue_get q block timeout =
     (case queue q of
        [] \<Rightarrow>
          (if \<not> block then Some (Inl Empty)
           else (case timeout of
                   None \<Rightarrow> None
                 | Some t \<Rightarrow> if t < 0 then Some (Inl ValueError) else Some (Inl Empty)))
      | item # rest \<Rightarrow>
          (if block \<and> (case timeout of None \<Rightarrow> False | Some t \<Rightarrow> t < 0)
           then Some (Inl ValueError)
           else Some (Inr (item, q\<lparr>queue := rest\<rparr>))))"




text \<open>The key of an entry in the queue: \<^verbatim>\<open>self.file.id\<close>.\<close>

definition file_id :: "File \<Rightarrow> str" where
  "file_id f = id' (file' f)"


section \<open>Floating point threshold of should\_download\<close>

text \<open>
  \<^verbatim>\<open>1e6 * args.maxsize\<close> is a product of IEEE doubles: Python converts the integer to a
  double (round to nearest, ties to even, \<^verbatim>\<open>OverflowError\<close> beyond the range of a double)
  and rounds the product again (to infinity beyond the range). Both factors are integers,
  so every value that occurs is an integer or an infinity. Python compares an \<^verbatim>\<open>int\<close> with
  a \<^verbatim>\<open>float\<close> exactly.
\<close>

fun bit_length :: "nat \<Rightarrow> nat" where
  "bit_length n = (if n = 0 then 0 else Suc (bit_length (n div 2)))"

declare bit_length.simps [simp del]

definition round_double :: "int \<Rightarrow> int" where
  "round_double n =
     (let a = nat \<bar>n\<bar>; k = bit_length a in
      if k \<le> 53 then n
      else
        (let e = k - 53; q = a div 2 ^ e; r = a mod 2 ^ e; half = 2 ^ (e - 1);
             q' = (if half < r \<or> (r = half \<and> odd q) then q + 1 else q)
         in sgn n * int (q' * 2 ^ e)))"

datatype pyfloat = Float int | PosInf | NegInf

definition float_of_int :: "int \<Rightarrow> exn + int" where
  "float_of_int n =
     (let r = round_double n in if 2 ^ 1024 \<le> \<bar>r\<bar> then Inl OverflowError else Inr r)"

definition float_mul :: "int \<Rightarrow> int \<Rightarrow> pyfloat" where
  "float_mul a b =
     (let r = round_double (a * b) in
      if 2 ^ 1024 \<le> r then PosInf else if r \<le> - (2 ^ 1024) then NegInf else Float r)"

fun int_gt_float :: "int \<Rightarrow> pyfloat \<Rightarrow> bool" where
  "int_gt_float n (Float x) = (x < n)"
| "int_gt_float n PosInf = False"
| "int_gt_float n NegInf = True"

text \<open>The double product \<^verbatim>\<open>1e6 * m\<close> is the integer product: nothing is rounded.\<close>

definition threshold_exact :: "int \<Rightarrow> bool" where
  "threshold_exact m =
     (float_of_int m = Inr m \<and> float_mul 1000000 m = Float (1000000 * m))"

section \<open>should\_download\<close>

text \<open>
  The debug log lines are left out. \<^verbatim>\<open>file.size\<close> is read before the product is formed,
  so a folder raises \<^verbatim>\<open>AttributeError\<close> whatever \<^verbatim>\<open>args.maxsize\<close> is.
\<close>

definition should_download :: "Metadata \<Rightarrow> Namespace \<Rightarrow> exn + bool" where
  "should_download file args =
     (case size' file of
        Inl e \<Rightarrow> Inl e
      | Inr file_size \<Rightarrow>
          (case float_of_int (args_maxsize args) of
             Inl e \<Rightarrow> Inl e
           | Inr m \<Rightarrow>
               if int_gt_float file_size (float_mul 1000000 m) then Inr False
               else
                 (case args_since args of
                    None \<Rightarrow> Inr True
                  | Some since \<Rightarrow>
                      (case server_modified file of
                         Inl e \<Rightarrow> Inl e
                       | Inr modified \<Rightarrow> if modified < since then Inr False else Inr True))))"

section \<open>remove\_unprintable\<close>

text \<open>
  \<^verbatim>\<open>string.printable\<close> is \<^verbatim>\<open>digits + ascii_lowercase + ascii_uppercase + punctuation +
  whitespace\<close>, here by code points.
\<close>

definition printable :: str where
  "printable =
     [48..<58] @ [97..<123] @ [65..<91]
     @ [33..<48] @ [58..<65] @ [91..<97] @ [123..<127]
     @ [32, 9, 10, 13, 11, 12]"

definition remove_unprintable :: "str \<Rightarrow> str" where
  "remove_unprintable text = concat (map (\<lambda>c. [c]) (filter (\<lambda>c. c \<in> set printable) text))"

section \<open>save\_file\<close>

text \<open>\<^verbatim>\<open>os.path.join(a, b)\<close> and \<^verbatim>\<open>os.path.dirname(p)\<close> of \<^verbatim>\<open>posixpath\<close>; the separator is \<open>/\<close>.\<close>

definition sep :: nat where
  "sep = 47"

definition os_path_join :: "str \<Rightarrow> str \<Rightarrow> str" where
  "os_path_join a b =
     (if b \<noteq> [] \<and> hd b = sep then b
      else if a = [] \<or> last a = sep then a @ b
      else a @ [sep] @ b)"

definition os_path_dirname :: "str \<Rightarrow> str" where
  "os_path_dirname p =
     (let head = rev (dropWhile (\<lambda>c. c \<noteq> sep) (rev p)) in
      if head \<noteq> [] \<and> head \<noteq> replicate (length head) sep
      then rev (dropWhile (\<lambda>c. c = sep) (rev head))
      else head)"

text \<open>
  The local machine: \<open>makedirs os d\<close> is the outcome of \<^verbatim>\<open>os.makedirs(d, exist_ok=True)\<close>
  (\<open>None\<close> when it succeeds). The world records what the program did: its log, the
  directories it made sure of, and the downloads that completed (local path, remote path).
\<close>

record OS =
  makedirs :: "str \<Rightarrow> exn option"

datatype log_record = LogInfo str | LogError exn | LogException str exn

record World =
  log_records :: "log_record list"
  dirs :: "str list"
  downloads :: "(str \<times> str) list"

definition logger :: "log_record \<Rightarrow> World \<Rightarrow> World" where
  "logger r w = w\<lparr>log_records := log_records w @ [r]\<rparr>"

definition local_path_of :: "File \<Rightarrow> str \<Rightarrow> str" where
  "local_path_of file root = os_path_join root (remove_unprintable (path_display (file' file)))"

definition save_file :: "OS \<Rightarrow> DropboxTeam \<Rightarrow> File \<Rightarrow> str \<Rightarrow> World \<Rightarrow> exn option \<times> World" where
  "save_file os team file root w =
     (let printable_path = remove_unprintable (path_display (file' file));
          w1 = logger (LogInfo (py ''Saving '' @ printable_path)) w;
          local_path = os_path_join root printable_path
      in case makedirs os (os_path_dirname local_path) of
           Some ex \<Rightarrow>
             if ex = FileNotFoundError then (None, logger (LogError ex) w1) else (Some ex, w1)
         | None \<Rightarrow>
             (let w2 = w1\<lparr>dirs := dirs w1 @ [os_path_dirname local_path]\<rparr> in
              case files_download_to_file team file local_path of
                Some ex \<Rightarrow>
                  if is_Exception ex
                  then (None, logger (LogException (py ''Exception whilst saving '' @ local_path) ex) w2)
                  else (Some ex, w2)
              | None \<Rightarrow>
                  (None, w2\<lparr>downloads := downloads w2 @ [(local_path, path_display (file' file))]\<rparr>)))"

section \<open>list\_members\<close>

text \<open>
  The generator is modelled by the list of members it yields, together with the cursors it
  sent to \<^verbatim>\<open>team_members_list_continue\<close>. The \<^verbatim>\<open>while\<close> loop may run forever.
\<close>

partial_function (option) list_members_while ::
  "DropboxTeam \<Rightarrow> MembersListResult \<Rightarrow> TeamMemberInfo list \<Rightarrow> str list
     \<Rightarrow> (TeamMemberInfo list \<times> str list) option" where
  "list_members_while team members_list yielded requests =
     (if has_more members_list
      then (let next_list = team_members_list_continue team (cursor members_list)
            in list_members_while team next_list (yielded @ members next_list)
                 (requests @ [cursor members_list]))
      else Some (yielded, requests))"

definition list_members :: "DropboxTeam \<Rightarrow> (TeamMemberInfo list \<times> str list) option" where
  "list_members team =
     (let members_list = team_members_list team
      in list_members_while team members_list (members members_list) [])"

text \<open>The page the service returns after \<open>k\<close> continuation requests.\<close>

fun members_page :: "DropboxTeam \<Rightarrow> nat \<Rightarrow> MembersListResult" where
  "members_page team 0 = team_members_list team"
| "members_page team (Suc k) = team_members_list_continue team (cursor (members_page team k))"

section \<open>limit and list\_files\<close>

text \<open>
  A generator run to its end is the list of items it yields and the exception that ended
  it, if one did. \<open>gen_seq\<close> runs one generator after another.
\<close>

type_synonym gen = "File list \<times> exn option"

definition gen_seq :: "gen option \<Rightarrow> gen option \<Rightarrow> gen option" where
  "gen_seq a b =
     (case a of
        None \<Rightarrow> None
      | Some (ys, Some e) \<Rightarrow> Some (ys, Some e)
      | Some (ys, None) \<Rightarrow>
          (case b of None \<Rightarrow> None | Some (zs, e) \<Rightarrow> Some (ys @ zs, e)))"

text \<open>
  The wrapper that \<^verbatim>\<open>limit(n)\<close> puts around a generator function: it yields the items with
  index below \<open>n\<close> and breaks at the first other item, so what the wrapped generator would
  have done after that item never happens. With the default \<^verbatim>\<open>limit=None\<close> the comparison
  \<^verbatim>\<open>i < limit\<close> raises \<^verbatim>\<open>TypeError\<close> at the first item. The wrapper is applied to the
  completed run of the wrapped generator: where that run does not end within the fuel,
  \<open>list_files\<close> below is \<open>None\<close> even if the wrapper would have stopped it early.
\<close>

definition limit :: "int option \<Rightarrow> gen \<Rightarrow> gen" where
  "limit n g =
     (case g of (ys, e) \<Rightarrow>
        (case n of
           None \<Rightarrow> if ys = [] then (ys, e) else ([], Some TypeError)
         | Some k \<Rightarrow> if nat k < length ys then (take (nat k) ys, None) else (ys, e)))"

text \<open>
  The \<^verbatim>\<open>for entry in folder_list.entries\<close> loop; \<open>rec\<close> is the recursive call
  \<^verbatim>\<open>list_files(team, member, args, entry.path_display)\<close>.
\<close>

fun list_files_entries ::
  "(str \<Rightarrow> gen option) \<Rightarrow> TeamMemberInfo \<Rightarrow> Namespace \<Rightarrow> Metadata list \<Rightarrow> gen option" where
  "list_files_entries rec member args [] = Some ([], None)"
| "list_files_entries rec member args (entry # rest) =
     (case should_download entry args of
        Inr True \<Rightarrow>
          gen_seq (Some ([\<lparr>file' = entry, member' = member\<rparr>], None))
            (list_files_entries rec member args rest)
      | Inr False \<Rightarrow> list_files_entries rec member args rest
      | Inl ex \<Rightarrow>
          if ex = AttributeError
          then gen_seq (rec (path_display entry)) (list_files_entries rec member args rest)
          else Some ([], Some ex))"

text \<open>The \<^verbatim>\<open>while folder_list.has_more\<close> loop; the fuel bounds the number of further pages.\<close>

fun list_files_while ::
  "(str \<Rightarrow> gen option) \<Rightarrow> nat \<Rightarrow> DropboxTeam \<Rightarrow> TeamMemberInfo \<Rightarrow> Namespace
     \<Rightarrow> ListFolderResult \<Rightarrow> gen option" where
  "list_files_while rec 0 team member args folder_list =
     (if has_more folder_list then None else Some ([], None))"
| "list_files_while rec (Suc n) team member args folder_list =
     (if has_more folder_list
      then (let next_list = files_list_folder_continue team (team_member_id (profile member))
                              (cursor folder_list)
            in gen_seq (list_files_entries rec member args (entries next_list))
                 (list_files_while rec n team member args next_list))
      else Some ([], None))"

text \<open>The undecorated function body.\<close>

definition list_files_body ::
  "(str \<Rightarrow> gen option) \<Rightarrow> nat \<Rightarrow> DropboxTeam \<Rightarrow> TeamMemberInfo \<Rightarrow> Namespace \<Rightarrow> str
     \<Rightarrow> gen option" where
  "list_files_body rec n team member args dir =
     (let folder_list = files_list_folder team (team_member_id (profile member)) dir
      in gen_seq (list_files_entries rec member args (entries folder_list))
           (list_files_while rec n team member args folder_list))"

text \<open>
  \<^verbatim>\<open>list_files\<close> as the module binds it: the body under \<^verbatim>\<open>@limit(10)\<close>. The recursive
  call in the body goes through the module's name, hence through the wrapper again. The
  fuel bounds the depth of the folder recursion and the pages of each folder; \<open>None\<close> means
  that the fuel did not suffice.
\<close>

fun list_files ::
  "nat \<Rightarrow> DropboxTeam \<Rightarrow> TeamMemberInfo \<Rightarrow> Namespace \<Rightarrow> str \<Rightarrow> gen option" where
  "list_files 0 team member args dir = None"
| "list_files (Suc n) team member args dir =
     map_option (limit (Some 10))
       (list_files_body (\<lambda>d. list_files n team member args d) n team member args dir)"

section \<open>list\_and\_save\<close>

text \<open>The \<^verbatim>\<open>while True\<close> loop that downloads each file; \<open>None\<close> when it never returns.\<close>

partial_function (option) list_and_save_while ::
  "OS \<Rightarrow> DropboxTeam \<Rightarrow> str \<Rightarrow> SetQueue \<Rightarrow> World \<Rightarrow> (exn option \<times> World) option" where
  "list_and_save_while os team root q w =
     (case Queue_get q True None of
        None \<Rightarrow> None
      | Some (Inl ex) \<Rightarrow>
          if ex = Empty then Some (None, logger (LogInfo (py ''File queue is empty'')) w)
          else Some (Some ex, w)
      | Some (Inr (item, q')) \<Rightarrow>
          (case save_file os team item root w of
             (Some ex, w') \<Rightarrow>
               if ex = Empty then Some (None, logger (LogInfo (py ''File queue is empty'')) w')
               else Some (Some ex, w')
           | (None, w') \<Rightarrow> list_and_save_while os team root q' w'))"

text \<open>The two \<^verbatim>\<open>for\<close> loops that fill the queue.\<close>

fun put_all :: "(str \<Rightarrow> int) \<Rightarrow> SetQueue \<Rightarrow> File list \<Rightarrow> SetQueue option" where
  "put_all h q [] = Some q"
| "put_all h q (f # fs) =
     (case Queue_put h q f of None \<Rightarrow> None | Some q' \<Rightarrow> put_all h q' fs)"

fun list_and_save_for ::
  "nat \<Rightarrow> (str \<Rightarrow> int) \<Rightarrow> DropboxTeam \<Rightarrow> Namespace \<Rightarrow> TeamMemberInfo list \<Rightarrow> SetQueue
     \<Rightarrow> (exn option \<times> SetQueue) option" where
  "list_and_save_for n h team args [] q = Some (None, q)"
| "list_and_save_for n h team args (member # rest) q =
     (case list_files n team member args [] of
        None \<Rightarrow> None
      | Some (ys, e) \<Rightarrow>
          (case put_all h q ys of
             None \<Rightarrow> None
           | Some q' \<Rightarrow>
               (case e of
                  Some ex \<Rightarrow> Some (Some ex, q')
                | None \<Rightarrow> list_and_save_for n h team args rest q')))"

definition list_and_save ::
  "nat \<Rightarrow> (str \<Rightarrow> int) \<Rightarrow> OS \<Rightarrow> DropboxTeam \<Rightarrow> Namespace \<Rightarrow> World
     \<Rightarrow> (exn option \<times> World) option" where
  "list_and_save n h os team args w =
     (case list_members team of
        None \<Rightarrow> None
      | Some (member_list, requests) \<Rightarrow>
          (case list_and_save_for n h team args member_list (SetQueue_init 0) of
             None \<Rightarrow> None
           | Some (Some ex, q) \<Rightarrow> Some (Some ex, w)
           | Some (None, q) \<Rightarrow> list_and_save_while os team (args_out args) q w))"


section \<open>Example values\<close>

text \<open>Concrete members, files, services and settings on which the theorems are evaluated.\<close>

definition alice :: TeamMemberInfo where
  "alice = \<lparr>profile = \<lparr>team_member_id = py ''dbmid:alice'', display_name = py ''alice''\<rparr>\<rparr>"

definition bob :: TeamMemberInfo where
  "bob = \<lparr>profile = \<lparr>team_member_id = py ''dbmid:bob'', display_name = py ''bob''\<rparr>\<rparr>"

definition file_X :: Metadata where
  "file_X = FileMetadata (py ''id:X'') (py ''/a.txt'') 2000000 10"

definition empty_team :: DropboxTeam where
  "empty_team =
     \<lparr>team_members_list = \<lparr>has_more = False, cursor = [], members = []\<rparr>,
      team_members_list_continue = (\<lambda>c. \<lparr>has_more = False, cursor = [], members = []\<rparr>),
      files_list_folder = (\<lambda>u d. \<lparr>has_more = False, cursor = [], entries = []\<rparr>),
      files_list_folder_continue = (\<lambda>u c. \<lparr>has_more = False, cursor = [], entries = []\<rparr>),
      files_download_to_file = (\<lambda>f p. None)\<rparr>"

definition no_log :: World where
  "no_log = \<lparr>log_records = [], dirs = [], downloads = []\<rparr>"

definition args_100 :: Namespace where
  "args_100 = \<lparr>args_since = Some 10, args_maxsize = 100, args_out = py ''out'', args_limit = None\<rparr>"

definition two_page_team :: DropboxTeam where
  "two_page_team =
     \<lparr>team_members_list = \<lparr>has_more = True, cursor = py ''c1'', members = [alice]\<rparr>,
      team_members_list_continue =
        (\<lambda>c. if c = py ''c1'' then \<lparr>has_more = False, cursor = py ''c2'', members = [bob]\<rparr>
              else \<lparr>has_more = True, cursor = c, members = []\<rparr>),
      files_list_folder = (\<lambda>u d. \<lparr>has_more = False, cursor = [], entries = []\<rparr>),
      files_list_folder_continue = (\<lambda>u c. \<lparr>has_more = False, cursor = [], entries = []\<rparr>),
      files_download_to_file = (\<lambda>f p. None)\<rparr>"

text \<open>
  \<open>n_files k\<close> are \<open>k\<close> small recent files with different ids; \<open>flat_team es\<close> is a team of
  one member whose every folder lists the entries \<open>es\<close> on a single page.
\<close>

definition n_files :: "nat \<Rightarrow> Metadata list" where
  "n_files k = map (\<lambda>j. FileMetadata [105, 100, 58, j] (py ''/f'' @ [j]) 1 20) [0..<k]"

definition flat_team :: "Metadata list \<Rightarrow> DropboxTeam" where
  "flat_team es =
     \<lparr>team_members_list = \<lparr>has_more = False, cursor = [], members = [alice]\<rparr>,
      team_members_list_continue = (\<lambda>c. \<lparr>has_more = False, cursor = [], members = []\<rparr>),
      files_list_folder = (\<lambda>u d. \<lparr>has_more = False, cursor = [], entries = es\<rparr>),
      files_list_folder_continue = (\<lambda>u c. \<lparr>has_more = False, cursor = [], entries = []\<rparr>),
      files_download_to_file = (\<lambda>f p. None)\<rparr>"

section \<open>Strings and paths\<close>

lemma py_simps: "py [] = []" "py (c # cs) = of_char c # py cs"
  by (simp_all add: py_def)

lemma printable_iff: "c \<in> set printable \<longleftrightarrow> (9 \<le> c \<and> c \<le> 13) \<or> (32 \<le> c \<and> c \<le> 126)"
  unfolding printable_def set_append set_upt by auto

lemma remove_unprintable_filter: "remove_unprintable s = filter (\<lambda>c. c \<in> set printable) s"
  unfolding remove_unprintable_def by (induction s) simp_all

lemma remove_unprintable_a_txt: "remove_unprintable (py ''/a.txt'') = py ''/a.txt''"
  by (simp add: remove_unprintable_filter printable_iff py_simps)

lemma local_path_a_txt: "os_path_join root (py ''/a.txt'') = py ''/a.txt''"
  by (simp add: os_path_join_def sep_def py_simps)

lemma dirname_a_txt: "os_path_dirname (py ''/a.txt'') = py ''/''"
  by (simp add: os_path_dirname_def sep_def py_simps)

section \<open>File equality and hash\<close>

lemma getattr_Metadata_obj_id: "getattr (Metadata_obj m) ''id'' = Inr (PyStr (id' m))"
  by (cases m) (simp_all add: Metadata_obj_def)

lemma File_eq_File_obj: "File_eq y (File_obj x) = Inr (file_id y = file_id x)"
  by (simp add: File_eq_def File_eq_try_def File_obj_def getattr_Metadata_obj_id file_id_def)

lemma File_eq_cases:
  "File_eq self other =
     Inr (\<exists>f. getattr other ''file'' = Inr f \<and> getattr f ''id'' = Inr (PyStr (id' (file' self))))"
proof (cases "getattr other ''file''")
  case (Inl e)
  then have "e = AttributeError" by (cases other) (auto split: option.splits)
  with Inl show ?thesis by (simp add: File_eq_def File_eq_try_def)
next
  case (Inr f)
  show ?thesis
  proof (cases "getattr f ''id''")
    case (Inl e)
    then have "e = AttributeError" by (cases f) (auto split: option.splits)
    with Inl Inr show ?thesis by (simp add: File_eq_def File_eq_try_def)
  next
    case (Inr v)
    with \<open>getattr other ''file'' = Inr f\<close> show ?thesis
      by (cases v) (auto simp: File_eq_def File_eq_try_def)
  qed
qed

text \<open>
  Claim C9. \<^verbatim>\<open>File.__eq__\<close> returns a truth value for every \<open>File\<close> and every other
  object and never raises. It is true exactly when the other object has a \<^verbatim>\<open>file\<close>
  attribute whose \<^verbatim>\<open>id\<close> is the same string, and false when the other object has no
  \<^verbatim>\<open>file\<close> attribute. Neither the equality nor the hash reads the owning member: both are
  functions of the file id alone.
\<close>

theorem File_eq_total:
  "(\<exists>b. File_eq self other = Inr b)
   \<and> (File_eq self other = Inr True \<longleftrightarrow>
        (\<exists>f. getattr other ''file'' = Inr f \<and> getattr f ''id'' = Inr (PyStr (id' (file' self)))))
   \<and> (getattr other ''file'' = Inl AttributeError \<longrightarrow> File_eq self other = Inr False)
   \<and> File_eq self (File_obj g) = Inr (id' (file' self) = id' (file' g))
   \<and> File_eq (self\<lparr>member' := m\<rparr>) other = File_eq self other
   \<and> File_eq self (File_obj (g\<lparr>member' := m\<rparr>)) = File_eq self (File_obj g)
   \<and> File_hash h (self\<lparr>member' := m\<rparr>) = File_hash h self
   \<and> (id' (file' self) = id' (file' g) \<longrightarrow> File_hash h self = File_hash h g)"
proof -
  have 1: "\<exists>b. File_eq self other = Inr b" by (simp add: File_eq_cases)
  have 2: "File_eq self other = Inr True \<longleftrightarrow>
        (\<exists>f. getattr other ''file'' = Inr f \<and> getattr f ''id'' = Inr (PyStr (id' (file' self))))"
    by (simp add: File_eq_cases)
  have 3: "getattr other ''file'' = Inl AttributeError \<longrightarrow> File_eq self other = Inr False"
    by (simp add: File_eq_cases)
  have 4: "File_eq self (File_obj g) = Inr (id' (file' self) = id' (file' g))"
    by (simp add: File_eq_File_obj file_id_def)
  have 5: "File_eq (self\<lparr>member' := m\<rparr>) other = File_eq self other"
    by (simp add: File_eq_cases)
  have 6: "File_eq self (File_obj (g\<lparr>member' := m\<rparr>)) = File_eq self (File_obj g)"
    by (simp add: File_eq_File_obj file_id_def)
  have 7: "File_hash h (self\<lparr>member' := m\<rparr>) = File_hash h self"
    by (simp add: File_hash_def)
  have 8: "id' (file' self) = id' (file' g) \<longrightarrow> File_hash h self = File_hash h g"
    by (simp add: File_hash_def)
  from 1 2 3 4 5 6 7 8 show ?thesis by blast
qed

text \<open>
  The hypotheses of C9 at a concrete input: \<^verbatim>\<open>None\<close> has no \<^verbatim>\<open>file\<close> attribute, and the
  same file seen through alice and through bob has one id.
\<close>

theorem File_eq_total_witness:
  "getattr PyNone ''file'' = Inl AttributeError
   \<and> File_eq \<lparr>file' = file_X, member' = alice\<rparr> PyNone = Inr False
   \<and> id' (file' \<lparr>file' = file_X, member' = alice\<rparr>) = id' (file' \<lparr>file' = file_X, member' = bob\<rparr>)
   \<and> File_hash (\<lambda>s. int (length s)) \<lparr>file' = file_X, member' = alice\<rparr>
       = File_hash (\<lambda>s. int (length s)) \<lparr>file' = file_X, member' = bob\<rparr>"
proof -
  let ?a = "\<lparr>file' = file_X, member' = alice\<rparr>"
  let ?b = "\<lparr>file' = file_X, member' = bob\<rparr>"
  note t = File_eq_total [of ?a PyNone ?b bob "\<lambda>s. int (length s)"]
  have h1: "getattr PyNone ''file'' = Inl AttributeError" by simp
  have h2: "id' (file' ?a) = id' (file' ?b)" by simp
  from t have c3: "getattr PyNone ''file'' = Inl AttributeError \<longrightarrow> File_eq ?a PyNone = Inr False"
    by (elim conjE)
  from t have c8: "id' (file' ?a) = id' (file' ?b) \<longrightarrow>
      File_hash (\<lambda>s. int (length s)) ?a = File_hash (\<lambda>s. int (length s)) ?b"
    by (elim conjE)
  from h1 h2 c3 c8 show ?thesis by (intro conjI) (erule (1) mp | assumption)+
qed

section \<open>The queue admits each file id once\<close>










section \<open>The download loop\<close>

lemma list_members_empty_team: "list_members empty_team = Some ([], [])"
  unfolding list_members_def
  by (subst list_members_while.simps) (simp add: empty_team_def)

lemma save_file_succeeds:
  "fst (save_file \<lparr>makedirs = \<lambda>d. None\<rparr> (team\<lparr>files_download_to_file := \<lambda>f p. None\<rparr>) item root w)
     = None"
  by (simp add: save_file_def Let_def)

lemma list_and_save_while_never_returns:
  "list_and_save_while \<lparr>makedirs = \<lambda>d. None\<rparr> (team\<lparr>files_download_to_file := \<lambda>f p. None\<rparr>)
     root q w = None"
proof (induction "queue q" arbitrary: q w)
  case Nil
  then show ?case
    by (subst list_and_save_while.simps) (simp add: Queue_get_def)
next
  case (Cons item rest)
  let ?os = "\<lparr>makedirs = \<lambda>d. None\<rparr>"
  let ?team = "team\<lparr>files_download_to_file := \<lambda>f p. None\<rparr>"
  obtain r w' where sf: "save_file ?os ?team item root w = (r, w')"
    by (cases "save_file ?os ?team item root w")
  with save_file_succeeds [of team item root w] have r: "r = None" by simp
  from Cons.hyps(2) [symmetric]
  have g: "Queue_get q True None = Some (Inr (item, q\<lparr>queue := rest\<rparr>))"
    by (simp add: Queue_get_def)
  have "rest = queue (q\<lparr>queue := rest\<rparr>)" by simp
  from Cons.hyps(1) [OF this] have "list_and_save_while ?os ?team root (q\<lparr>queue := rest\<rparr>) w' = None" .
  with g sf r show ?case
    by (subst list_and_save_while.simps) simp
qed

text \<open>
  Claim C2, evaluated on the code. When the queue is empty, \<^verbatim>\<open>file_queue.get()\<close> (blocking,
  no timeout) does not raise \<^verbatim>\<open>queue.Empty\<close>: it never returns, and neither does the loop.
  This holds for the queue as created and for every queue whose deque is empty. When
  every directory can be made and every download succeeds, the loop returns for no queue
  at all: after the last queued file it waits forever. A run over a team without members
  never returns either. Only a non-blocking \<^verbatim>\<open>get\<close> raises \<^verbatim>\<open>queue.Empty\<close> on an empty
  queue.
\<close>

theorem list_and_save_while_empty_queue_blocks:
  "list_and_save_while os team root (SetQueue_init 0) w = None
   \<and> list_and_save_while os team root (q\<lparr>queue := []\<rparr>) w = None
   \<and> list_and_save_while \<lparr>makedirs = \<lambda>d. None\<rparr> (team\<lparr>files_download_to_file := \<lambda>f p. None\<rparr>)
        root q w = None
   \<and> list_and_save n h os empty_team args w = None
   \<and> Queue_get (q\<lparr>queue := []\<rparr>) True None = None
   \<and> Queue_get (q\<lparr>queue := []\<rparr>) False None = Some (Inl Empty)"
proof -
  have 1: "list_and_save_while os team root (SetQueue_init 0) w = None" for team root
    by (subst list_and_save_while.simps) (simp add: Queue_get_def SetQueue_init_def)
  have 2: "list_and_save_while os team root (q\<lparr>queue := []\<rparr>) w = None"
    by (subst list_and_save_while.simps) (simp add: Queue_get_def)
  have 3: "Queue_get (q\<lparr>queue := []\<rparr>) True None = None"
    by (simp add: Queue_get_def)
  have 4: "Queue_get (q\<lparr>queue := []\<rparr>) False None = Some (Inl Empty)"
    by (simp add: Queue_get_def)
  have 5: "list_and_save n h os empty_team args w = None"
    by (simp add: list_and_save_def list_members_empty_team 1)
  from 1 2 list_and_save_while_never_returns [of team root q w] 5 3 4 show ?thesis
    by (intro conjI)
qed

section \<open>remove\_unprintable keeps the ASCII printable characters\<close>

text \<open>
  Claim C8. The result of \<open>remove_unprintable\<close> is the input restricted, in order, to the
  characters of \<^verbatim>\<open>string.printable\<close>, which are the code points 9 to 13 and 32 to 126. It
  is a subsequence of the input and holds no code point from 128 on, so a printable
  non-ASCII letter (U+00E9, U+4E2D) is removed like any other.
\<close>

theorem remove_unprintable_ascii_subsequence:
  "remove_unprintable s = filter (\<lambda>c. (9 \<le> c \<and> c \<le> 13) \<or> (32 \<le> c \<and> c \<le> 126)) s
   \<and> subseq (remove_unprintable s) s
   \<and> filter (\<lambda>c. 128 \<le> c) (remove_unprintable s) = []
   \<and> remove_unprintable (xs @ [233] @ ys @ [20013] @ zs)
       = remove_unprintable xs @ remove_unprintable ys @ remove_unprintable zs"
proof -
  have a: "remove_unprintable s = filter (\<lambda>c. (9 \<le> c \<and> c \<le> 13) \<or> (32 \<le> c \<and> c \<le> 126)) s"
    by (simp add: remove_unprintable_filter printable_iff)
  have b: "subseq (remove_unprintable s) s"
    by (simp add: remove_unprintable_filter)
  have c: "filter (\<lambda>c. 128 \<le> c) (remove_unprintable s) = []"
    by (auto simp: a filter_empty_conv)
  have d: "remove_unprintable (xs @ [233] @ ys @ [20013] @ zs)
       = remove_unprintable xs @ remove_unprintable ys @ remove_unprintable zs"
    by (simp add: remove_unprintable_filter printable_iff)
  from a b c d show ?thesis by blast
qed

section \<open>save\_file\<close>

text \<open>
  Claim C3, evaluated on the code. For the remote path \<^verbatim>\<open>/a.txt\<close> the local path is
  \<^verbatim>\<open>/a.txt\<close> whatever the output root is: \<^verbatim>\<open>os.path.join\<close> drops the root when its
  second argument starts with the separator, and the program does not strip it. The file
  is written to \<^verbatim>\<open>/a.txt\<close>, not under \<^verbatim>\<open>out\<close>.
\<close>

theorem save_file_ignores_root:
  "local_path_of \<lparr>file' = file_X, member' = alice\<rparr> (py ''out'') = py ''/a.txt''
   \<and> local_path_of \<lparr>file' = file_X, member' = alice\<rparr> root = py ''/a.txt''
   \<and> downloads (snd (save_file \<lparr>makedirs = \<lambda>d. None\<rparr>
          (team\<lparr>files_download_to_file := \<lambda>f p. None\<rparr>)
          \<lparr>file' = file_X, member' = alice\<rparr> (py ''out'') no_log))
       = [(py ''/a.txt'', py ''/a.txt'')]"
  by (simp add: local_path_of_def save_file_def file_X_def remove_unprintable_a_txt
      local_path_a_txt dirname_a_txt logger_def no_log_def Let_def)

lemma save_file_raises:
  "fst (save_file os team file root w) = Some ex \<longleftrightarrow>
     (makedirs os (os_path_dirname (local_path_of file root)) = Some ex \<and> ex \<noteq> FileNotFoundError)
     \<or> (makedirs os (os_path_dirname (local_path_of file root)) = None
        \<and> files_download_to_file team file (local_path_of file root) = Some ex \<and> \<not> is_Exception ex)"
  by (auto simp: save_file_def local_path_of_def Let_def split: option.splits)

text \<open>
  Claim C7, evaluated on the code. On a POSIX system a target path beyond the path-length
  limit makes \<^verbatim>\<open>os.makedirs\<close> raise \<^verbatim>\<open>OSError\<close> (errno \<^verbatim>\<open>ENAMETOOLONG\<close>), which is not a
  \<^verbatim>\<open>FileNotFoundError\<close>. The handler, whose comment reads \<^verbatim>\<open>FileNotFoundError raised if
  path is too long\<close>, catches \<^verbatim>\<open>FileNotFoundError\<close> only: the \<^verbatim>\<open>OSError\<close> leaves \<open>save_file\<close>
  after the first log line, for every team, file, root and world, and it leaves the download
  loop with it, so the entries queued behind that file are never tried. A
  \<^verbatim>\<open>FileNotFoundError\<close> is logged and absorbed, and so is an \<^verbatim>\<open>Exception\<close> of the download
  step.
\<close>

theorem save_file_path_too_long_escapes:
  "save_file \<lparr>makedirs = \<lambda>d. Some OSError\<rparr> team file root w
     = (Some OSError,
        logger (LogInfo (py ''Saving '' @ remove_unprintable (path_display (file' file)))) w)
   \<and> map_option fst
        (list_and_save_while \<lparr>makedirs = \<lambda>d. Some OSError\<rparr> team root
           (q\<lparr>queue := file # rest\<rparr>) w)
     = Some (Some OSError)
   \<and> save_file \<lparr>makedirs = \<lambda>d. Some FileNotFoundError\<rparr> team file root w
     = (None, logger (LogError FileNotFoundError)
          (logger (LogInfo (py ''Saving '' @ remove_unprintable (path_display (file' file)))) w))
   \<and> fst (save_file \<lparr>makedirs = \<lambda>d. None\<rparr>
          (team\<lparr>files_download_to_file := \<lambda>f p. Some ApiError\<rparr>) file root w)
     = None"
proof -
  have 1: "save_file \<lparr>makedirs = \<lambda>d. Some OSError\<rparr> team file root w
     = (Some OSError,
        logger (LogInfo (py ''Saving '' @ remove_unprintable (path_display (file' file)))) w)"
    by (simp add: save_file_def Let_def)
  have g: "Queue_get (q\<lparr>queue := file # rest\<rparr>) True None
     = Some (Inr (file, q\<lparr>queue := rest\<rparr>))"
    by (simp add: Queue_get_def)
  have 2: "map_option fst
        (list_and_save_while \<lparr>makedirs = \<lambda>d. Some OSError\<rparr> team root
           (q\<lparr>queue := file # rest\<rparr>) w)
     = Some (Some OSError)"
    by (subst list_and_save_while.simps) (simp add: g 1)
  have 3: "save_file \<lparr>makedirs = \<lambda>d. Some FileNotFoundError\<rparr> team file root w
     = (None, logger (LogError FileNotFoundError)
          (logger (LogInfo (py ''Saving '' @ remove_unprintable (path_display (file' file)))) w))"
    by (simp add: save_file_def Let_def)
  have 4: "fst (save_file \<lparr>makedirs = \<lambda>d. None\<rparr>
          (team\<lparr>files_download_to_file := \<lambda>f p. Some ApiError\<rparr>) file root w)
     = None"
    by (simp add: save_file_def Let_def is_Exception_def)
  from 1 2 3 4 show ?thesis by (intro conjI)
qed

section \<open>The filter predicate\<close>

lemma bit_length_le: "n < 2 ^ k \<Longrightarrow> bit_length n \<le> k"
proof (induction k arbitrary: n)
  case 0
  then show ?case by (simp add: bit_length.simps)
next
  case (Suc k)
  show ?case
  proof (cases "n = 0")
    case True
    then show ?thesis by (simp add: bit_length.simps)
  next
    case False
    from Suc.prems have "n div 2 < 2 ^ k" by simp
    from Suc.IH[OF this] False show ?thesis by (subst bit_length.simps) simp
  qed
qed

lemma round_double_exact: "\<bar>n\<bar> < 2 ^ 53 \<Longrightarrow> round_double n = n"
proof -
  assume "\<bar>n\<bar> < 2 ^ 53"
  then have "nat \<bar>n\<bar> < 2 ^ 53" by simp
  from bit_length_le[OF this] show ?thesis by (simp add: round_double_def Let_def)
qed

lemma threshold_exact_small:
  assumes "\<bar>m\<bar> \<le> 9007199254"
  shows "threshold_exact m"
proof -
  from assms have a: "\<bar>m\<bar> < 2 ^ 53" by simp
  from assms have b: "\<bar>1000000 * m\<bar> < 2 ^ 53" by (simp add: abs_mult)
  have c: "(2::int) ^ 53 < 2 ^ 1024" by simp
  from round_double_exact[OF a] a c have 1: "float_of_int m = Inr m"
    by (simp add: float_of_int_def Let_def del: power_strict_increasing_iff)
  from b c have "1000000 * m < 2 ^ 1024" "- (2 ^ 1024) < 1000000 * m" by linarith+
  with round_double_exact[OF b] have 2: "float_mul 1000000 m = Float (1000000 * m)"
    by (simp add: float_mul_def Let_def)
  from 1 2 show ?thesis by (simp add: threshold_exact_def)
qed

lemma should_download_exact:
  assumes "threshold_exact (args_maxsize args)"
  shows "should_download (FileMetadata i p s t) args =
     Inr (if 1000000 * args_maxsize args < s then False
          else (case args_since args of None \<Rightarrow> True | Some since \<Rightarrow> \<not> t < since))"
  using assms
  by (simp add: should_download_def threshold_exact_def split: option.splits)

lemma should_download_folder: "should_download (FolderMetadata i p) args = Inl AttributeError"
  by (simp add: should_download_def)

lemma rd1: "round_double 576460752305 = 576460752305"
  by (rule round_double_exact) simp

lemma bl: "bit_length 576460752305000000 = 60"
  by (simp add: bit_length.simps)

lemma rd2: "round_double 576460752305000000 = 576460752304999936"
  by (simp add: round_double_def bl Let_def)

text \<open>
  The claim C5 as stated fails for a very large \<^verbatim>\<open>--maxsize\<close>: \<^verbatim>\<open>1e6 * 576460752305\<close> is
  rounded to the double 576460752304999936, so a file of exactly 576460752305000000 bytes
  is rejected although its size does not exceed \<open>maxsize * 1000000\<close>.
\<close>

theorem should_download_rejects_file_at_threshold:
  "should_download (FileMetadata (py ''id:X'') (py ''/a.txt'') 576460752305000000 10)
     \<lparr>args_since = None, args_maxsize = 576460752305, args_out = py ''out'', args_limit = None\<rparr>
     = Inr False
   \<and> \<not> (576460752305000000 > 576460752305 * (1000000::int))"
  by (simp add: should_download_def float_of_int_def float_mul_def rd1 rd2)

text \<open>
  Claim C5, as the code has it. Whenever the product \<^verbatim>\<open>1e6 * args.maxsize\<close> is exact in
  double precision, which it is for every \<open>maxsize\<close> of absolute value up to 9007199254 (the
  default 100 among them), \<open>should_download\<close> returns false if the size of the file is
  greater than \<open>maxsize * 1000000\<close>; otherwise false if \<open>since\<close> is set and the file was
  modified before it; otherwise true. Both comparisons are strict.
\<close>

theorem should_download_filter:
  "(\<bar>args_maxsize args\<bar> \<le> 9007199254 \<longrightarrow> threshold_exact (args_maxsize args))
   \<and> (threshold_exact (args_maxsize args) \<longrightarrow>
        should_download (FileMetadata i p s t) args =
          Inr (if 1000000 * args_maxsize args < s then False
               else (case args_since args of None \<Rightarrow> True | Some since \<Rightarrow> \<not> t < since)))"
  using threshold_exact_small [of "args_maxsize args"] should_download_exact [of args i p s t]
  by (intro conjI impI)

text \<open>
  C5 at the default \<open>maxsize = 100\<close> with a cutoff: a file of exactly 100000000 bytes
  modified exactly at the cutoff is accepted, one byte more or one tick earlier is not.
\<close>

theorem should_download_filter_witness:
  "\<bar>args_maxsize args_100\<bar> \<le> 9007199254
   \<and> threshold_exact (args_maxsize args_100)
   \<and> should_download (FileMetadata (py ''id:X'') (py ''/a.txt'') 100000000 10) args_100 = Inr True
   \<and> should_download (FileMetadata (py ''id:X'') (py ''/a.txt'') 100000001 10) args_100 = Inr False
   \<and> should_download (FileMetadata (py ''id:X'') (py ''/a.txt'') 100000000 9) args_100 = Inr False"
proof -
  have h: "\<bar>args_maxsize args_100\<bar> \<le> 9007199254" by (simp add: args_100_def)
  note t = should_download_filter [of args_100 "py ''id:X''" "py ''/a.txt''"]
  from t [of 0 0, THEN conjunct1] h have e: "threshold_exact (args_maxsize args_100)" by (rule mp)
  have 1: "should_download (FileMetadata (py ''id:X'') (py ''/a.txt'') 100000000 10) args_100 = Inr True"
    using t [of 100000000 10, THEN conjunct2] e by (simp add: args_100_def)
  have 2: "should_download (FileMetadata (py ''id:X'') (py ''/a.txt'') 100000001 10) args_100 = Inr False"
    using t [of 100000001 10, THEN conjunct2] e by (simp add: args_100_def)
  have 3: "should_download (FileMetadata (py ''id:X'') (py ''/a.txt'') 100000000 9) args_100 = Inr False"
    using t [of 100000000 9, THEN conjunct2] e by (simp add: args_100_def)
  from h e 1 2 3 show ?thesis by (intro conjI)
qed

section \<open>The member enumeration\<close>

lemma list_members_while_pages:
  assumes "\<not> has_more (members_page team (k + n))"
    and "\<forall>j<n. has_more (members_page team (k + j))"
  shows "list_members_while team (members_page team k) ys rs =
     Some (ys @ concat (map (\<lambda>j. members (members_page team j)) [Suc k..<Suc (k + n)]),
           rs @ map (\<lambda>j. cursor (members_page team j)) [k..<k + n])"
  using assms
proof (induction n arbitrary: k ys rs)
  case 0
  then show ?case by (subst list_members_while.simps) simp
next
  case (Suc n)
  from Suc.prems(2) have hm: "has_more (members_page team k)" by (metis add.right_neutral zero_less_Suc)
  have a: "\<not> has_more (members_page team (Suc k + n))" using Suc.prems(1) by simp
  have b: "\<forall>j<n. has_more (members_page team (Suc k + j))"
  proof (intro allI impI)
    fix j assume "j < n"
    then have "Suc j < Suc n" by simp
    with Suc.prems(2) have "has_more (members_page team (k + Suc j))" by blast
    then show "has_more (members_page team (Suc k + j))" by simp
  qed
  have step: "list_members_while team (members_page team k) ys rs =
      list_members_while team (members_page team (Suc k))
        (ys @ members (members_page team (Suc k))) (rs @ [cursor (members_page team k)])"
    using hm by (subst list_members_while.simps) (simp add: Let_def)
  have u1: "[Suc k..<Suc (k + Suc n)] = Suc k # [Suc (Suc k)..<Suc (Suc k + n)]"
    by (simp add: upt_conv_Cons)
  have u2: "[k..<k + Suc n] = k # [Suc k..<Suc k + n]"
    by (simp add: upt_conv_Cons)
  show ?case
    unfolding step Suc.IH[OF a b] u1 u2 by simp
qed

text \<open>
  Claim C6. If the service's member listing has finitely many pages, that is, page \<open>n\<close> is
  the first whose \<^verbatim>\<open>has_more\<close> is false, then \<open>list_members\<close> terminates. It yields the
  members of the pages 0 to \<open>n\<close>, each page once, in the order of the pages and of the
  members in them, and it requests a continuation exactly for the pages 0 to \<open>n - 1\<close>, each
  with the cursor of that page.
\<close>

theorem list_members_finite_pages:
  assumes "\<not> has_more (members_page team n)"
    and "\<forall>k<n. has_more (members_page team k)"
  shows "list_members team =
     Some (concat (map (\<lambda>k. members (members_page team k)) [0..<Suc n]),
           map (\<lambda>k. cursor (members_page team k)) [0..<n])"
proof -
  have "list_members team =
      list_members_while team (members_page team 0) (members (members_page team 0)) []"
    by (simp add: list_members_def Let_def)
  also have "\<dots> = Some (members (members_page team 0)
        @ concat (map (\<lambda>j. members (members_page team j)) [Suc 0..<Suc (0 + n)]),
        [] @ map (\<lambda>j. cursor (members_page team j)) [0..<0 + n])"
    using assms by (intro list_members_while_pages) simp_all
  also have "\<dots> = Some (concat (map (\<lambda>k. members (members_page team k)) [0..<Suc n]),
           map (\<lambda>k. cursor (members_page team k)) [0..<n])"
    by (simp add: upt_conv_Cons del: upt_Suc)
  finally show ?thesis .
qed

text \<open>C6 on a service with two pages: alice on the first, bob on the second.\<close>

theorem list_members_finite_pages_witness:
  "\<not> has_more (members_page two_page_team 1)
   \<and> has_more (members_page two_page_team 0)
   \<and> list_members two_page_team = Some ([alice, bob], [py ''c1''])"
proof -
  have p0: "members_page two_page_team 0 = \<lparr>has_more = True, cursor = py ''c1'', members = [alice]\<rparr>"
    by (simp add: two_page_team_def)
  have p1: "members_page two_page_team 1 = \<lparr>has_more = False, cursor = py ''c2'', members = [bob]\<rparr>"
    by (simp add: two_page_team_def)
  have h1: "\<not> has_more (members_page two_page_team 1)" unfolding p1 by simp
  have h0: "has_more (members_page two_page_team 0)" unfolding p0 by simp
  then have h2: "\<forall>k<1. has_more (members_page two_page_team k)" by simp
  from list_members_finite_pages [OF h1 h2]
  have "list_members two_page_team = Some ([alice, bob], [py ''c1''])"
    using p0 p1 by (simp add: upt_conv_Cons)
  with h1 h0 show ?thesis by (intro conjI)
qed

section \<open>File discovery and the item limit\<close>

lemma should_download_limit:
  "should_download e (args\<lparr>args_limit := l\<rparr>) = should_download e args"
  by (simp add: should_download_def cong: sum.case_cong option.case_cong if_cong)

lemma list_files_entries_limit:
  "list_files_entries rec member (args\<lparr>args_limit := l\<rparr>) es = list_files_entries rec member args es"
  by (induction es) (simp_all add: should_download_limit cong: sum.case_cong bool.case_cong if_cong)

lemma list_files_while_limit:
  "list_files_while rec n team member (args\<lparr>args_limit := l\<rparr>) fl
     = list_files_while rec n team member args fl"
  by (induction n arbitrary: fl) (simp_all add: list_files_entries_limit Let_def)

lemma list_files_limit:
  "list_files n team member (args\<lparr>args_limit := l\<rparr>) dir = list_files n team member args dir"
proof (induction n arbitrary: dir)
  case 0
  show ?case by simp
next
  case (Suc n)
  have "(\<lambda>d. list_files n team member (args\<lparr>args_limit := l\<rparr>) d)
      = (\<lambda>d. list_files n team member args d)"
    using Suc.IH by (intro ext)
  then show ?case
    by (simp add: list_files_body_def list_files_entries_limit list_files_while_limit)
qed

lemma limit_length: "limit (Some 10) g = (ys, e) \<Longrightarrow> length ys \<le> 10"
  by (cases g) (auto simp: limit_def split: if_splits)

lemma list_files_length:
  assumes "list_files n team member args dir = Some (ys, e)"
  shows "length ys \<le> 10"
proof (cases n)
  case 0
  with assms show ?thesis by simp
next
  case (Suc k)
  with assms obtain g where "limit (Some 10) g = (ys, e)" by auto
  then show ?thesis by (rule limit_length)
qed

text \<open>
  Claim C10. \<open>list_files\<close> does not read \<^verbatim>\<open>args.limit\<close>: two configurations that differ
  in the limit only give the same result for every member, every folder and every depth of
  recursion. Every invocation, top-level or recursive, yields at most 10 entries, the
  constant of the decorator.
\<close>

theorem list_files_independent_of_limit:
  "list_files n team member (args\<lparr>args_limit := l1\<rparr>) dir
     = list_files n team member (args\<lparr>args_limit := l2\<rparr>) dir
   \<and> (list_files n team member args dir = Some (ys, e) \<longrightarrow> length ys \<le> 10)"
  using list_files_length [of n team member args dir ys e]
  by (simp add: list_files_limit)

lemma list_files_entries_accepted:
  assumes "list_all (\<lambda>e. should_download e args = Inr True) es"
  shows "list_files_entries rec member args es
     = Some (map (\<lambda>e. \<lparr>file' = e, member' = member\<rparr>) es, None)"
  using assms by (induction es) (simp_all add: gen_seq_def)

lemma n_files_accepted:
  assumes "args_maxsize args = 100" and "args_since args = Some 10"
  shows "list_all (\<lambda>e. should_download e args = Inr True) (n_files k)"
proof -
  have "threshold_exact (args_maxsize args)" using assms(1) by (intro threshold_exact_small) simp
  then show ?thesis
    using assms by (simp add: n_files_def list_all_iff should_download_exact)
qed

lemma list_files_flat:
  assumes "args_maxsize args = 100" and "args_since args = Some 10"
  shows "list_files (Suc 0) (flat_team (n_files k)) alice args []
     = Some (limit (Some 10) (map (\<lambda>e. \<lparr>file' = e, member' = alice\<rparr>) (n_files k), None))"
  by (simp add: list_files_body_def flat_team_def list_files_entries_accepted
      n_files_accepted [OF assms] gen_seq_def)

lemma length_n_files: "length (n_files k) = k"
  by (simp add: n_files_def)

text \<open>
  C10 on a folder of twelve qualifying files: ten are yielded, with a configured limit of
  3 as with one of 20.
\<close>

theorem list_files_independent_of_limit_witness:
  "list_files (Suc 0) (flat_team (n_files 12)) alice args_100 []
     = Some (take 10 (map (\<lambda>e. \<lparr>file' = e, member' = alice\<rparr>) (n_files 12)), None)
   \<and> length (take 10 (map (\<lambda>e. \<lparr>file' = e, member' = alice\<rparr>) (n_files 12))) \<le> 10
   \<and> list_files (Suc 0) (flat_team (n_files 12)) alice (args_100\<lparr>args_limit := Some 3\<rparr>) []
     = list_files (Suc 0) (flat_team (n_files 12)) alice (args_100\<lparr>args_limit := Some 20\<rparr>) []"
proof -
  let ?ys = "take 10 (map (\<lambda>e. \<lparr>file' = e, member' = alice\<rparr>) (n_files 12))"
  have "args_maxsize args_100 = 100" and "args_since args_100 = Some 10"
    by (simp_all add: args_100_def)
  then have h: "list_files (Suc 0) (flat_team (n_files 12)) alice args_100 [] = Some (?ys, None)"
    unfolding list_files_flat [OF \<open>args_maxsize args_100 = 100\<close> \<open>args_since args_100 = Some 10\<close>]
    by (simp add: limit_def length_n_files)
  note t = list_files_independent_of_limit
    [where n = "Suc 0" and team = "flat_team (n_files 12)" and member = alice
       and args = args_100 and dir = "[]" and ys = ?ys and e = None]
  from t [THEN conjunct2] h have b: "length ?ys \<le> 10" by (rule mp)
  from h b t [where ?l1.0 = "Some 3" and ?l2.0 = "Some 20", THEN conjunct1]
  show ?thesis by (intro conjI)
qed

text \<open>
  Claim C4, evaluated on the code. With \<^verbatim>\<open>--limit 3\<close> a folder of five qualifying files
  yields all five; with \<^verbatim>\<open>--limit 20\<close>, and with no limit at all, a folder of twelve
  yields the first ten.
\<close>

theorem list_files_ignores_configured_limit:
  "list_files (Suc 0) (flat_team (n_files 5)) alice (args_100\<lparr>args_limit := Some 3\<rparr>) []
     = Some (map (\<lambda>e. \<lparr>file' = e, member' = alice\<rparr>) (n_files 5), None)
   \<and> list_files (Suc 0) (flat_team (n_files 12)) alice (args_100\<lparr>args_limit := Some 20\<rparr>) []
     = Some (take 10 (map (\<lambda>e. \<lparr>file' = e, member' = alice\<rparr>) (n_files 12)), None)
   \<and> list_files (Suc 0) (flat_team (n_files 12)) alice (args_100\<lparr>args_limit := None\<rparr>) []
     = Some (take 10 (map (\<lambda>e. \<lparr>file' = e, member' = alice\<rparr>) (n_files 12)), None)"
proof -
  have a: "args_maxsize (args_100\<lparr>args_limit := l\<rparr>) = 100"
    and b: "args_since (args_100\<lparr>args_limit := l\<rparr>) = Some 10" for l
    by (simp_all add: args_100_def)
  show ?thesis
    unfolding list_files_flat [OF a b] by (simp add: limit_def length_n_files)
qed

end
